theory Spec2Isabelle
  imports Main "HOL-Library.Word" "HOL-Library.Multiset"
begin

section \<open>Python values, errors and the platform\<close>

text \<open>
  The values that reach the attributes of a \<open>LeanMinHash\<close>: Python integers, strings
  (the entries of \<open>__slots__\<close>) and sequences of unsigned integers (a numpy array of
  hash values, or the tuple that \<open>struct.unpack_from\<close> returns).
\<close>

datatype pyval = PyInt int | PyStr string | PySeq "nat list"

text \<open>
  Exceptions are values. \<open>ValueError\<close> and \<open>TypeError\<close> carry the message of the
  \<open>raise\<close> statement; \<open>StructError\<close> is \<open>struct.error\<close>, raised inside the
  \<open>struct\<close> module, which raises \<open>IndexError\<close> for an offset that does not fit a
  \<open>Py_ssize_t\<close>; \<open>AttributeError\<close> names the attribute that is not set.
\<close>

datatype error =
    ValueError string
  | TypeError string
  | AttributeError string
  | IndexError
  | StructError

text \<open>
  The class of an exception, which is what an \<open>except\<close> clause selects on, and the
  class of the exception a call raised, if it raised one.
\<close>

datatype exc_class =
    ValueErrorClass
  | TypeErrorClass
  | AttributeErrorClass
  | IndexErrorClass
  | StructErrorClass

fun class_of :: "error \<Rightarrow> exc_class" where
  "class_of (ValueError msg) = ValueErrorClass"
| "class_of (TypeError msg) = TypeErrorClass"
| "class_of (AttributeError name) = AttributeErrorClass"
| "class_of IndexError = IndexErrorClass"
| "class_of StructError = StructErrorClass"

fun raised_class :: "error + 'a \<Rightarrow> exc_class option" where
  "raised_class (Inl e) = Some (class_of e)"
| "raised_class (Inr v) = None"

text \<open>
  What the code reads from the machine it runs on: \<open>sys.byteorder\<close>, and whether a
  C \<open>unsigned long\<close> has 8 bytes (Linux, macOS) or 4 (Windows). The second decides
  which \<open>struct\<close> character numpy reports for a dtype, and the native size of \<open>L\<close>.
\<close>

record platform =
  little_endian :: bool
  lp64 :: bool

section \<open>numpy dtypes and the struct module\<close>

text \<open>The unsigned dtypes \<open>u1\<close>, \<open>u2\<close>, \<open>u4\<close>, \<open>u8\<close>.\<close>

datatype dtype = U1 | U2 | U4 | U8

text \<open>The struct format characters \<open>B\<close>, \<open>H\<close>, \<open>I\<close>, \<open>L\<close>, \<open>Q\<close>.\<close>

datatype fmtcode = UChar | UShort | UInt | ULong | ULongLong

text \<open>The byte order characters \<open>@\<close>, \<open>=\<close>, \<open><\<close>, \<open>>\<close>, \<open>!\<close>.\<close>

datatype byteorder = Native | NativeStd | Little | Big | Network

type_synonym byte = "8 word"

type_synonym fmt = "(nat \<times> fmtcode) list"

fun itemsize :: "dtype \<Rightarrow> nat" where
  "itemsize U1 = 1"
| "itemsize U2 = 2"
| "itemsize U4 = 4"
| "itemsize U8 = 8"

text \<open>\<open>dtype.char\<close>: numpy names the C type of that width, preferring \<open>long\<close>.\<close>

fun dtype_char :: "platform \<Rightarrow> dtype \<Rightarrow> fmtcode" where
  "dtype_char pf U1 = UChar"
| "dtype_char pf U2 = UShort"
| "dtype_char pf U4 = (if lp64 pf then UInt else ULong)"
| "dtype_char pf U8 = (if lp64 pf then ULong else ULongLong)"

text \<open>
  \<open>np.dtype(f"{byteorder}u{n_bytes}")\<close>: a TypeError for a width numpy does not
  know (the message here abbreviates numpy's).
\<close>

definition np_dtype :: "nat \<Rightarrow> error + dtype" where
  "np_dtype n =
     (if n = 1 then Inr U1
      else if n = 2 then Inr U2
      else if n = 4 then Inr U4
      else if n = 8 then Inr U8
      else Inl (TypeError ''data type not understood''))"

fun standard_size :: "fmtcode \<Rightarrow> nat" where
  "standard_size UChar = 1"
| "standard_size UShort = 2"
| "standard_size UInt = 4"
| "standard_size ULong = 4"
| "standard_size ULongLong = 8"

fun native_size :: "platform \<Rightarrow> fmtcode \<Rightarrow> nat" where
  "native_size pf UChar = 1"
| "native_size pf UShort = 2"
| "native_size pf UInt = 4"
| "native_size pf ULong = (if lp64 pf then 8 else 4)"
| "native_size pf ULongLong = 8"

text \<open>Native sizes and alignment hold for \<open>@\<close> only; every other order is standard.\<close>

definition code_size :: "platform \<Rightarrow> byteorder \<Rightarrow> fmtcode \<Rightarrow> nat" where
  "code_size pf bo c = (if bo = Native then native_size pf c else standard_size c)"

definition padding :: "platform \<Rightarrow> byteorder \<Rightarrow> fmtcode \<Rightarrow> nat \<Rightarrow> nat" where
  "padding pf bo c pos =
     (if bo = Native
      then (native_size pf c - pos mod native_size pf c) mod native_size pf c
      else 0)"

fun order_little :: "platform \<Rightarrow> byteorder \<Rightarrow> bool" where
  "order_little pf Native = little_endian pf"
| "order_little pf NativeStd = little_endian pf"
| "order_little pf Little = True"
| "order_little pf Big = False"
| "order_little pf Network = False"

text \<open>
  \<open>struct.calcsize\<close> of a format given as its (count, character) items, from the
  position \<open>pos\<close> reached so far: an item is aligned first, also when its count is 0.
\<close>

fun calcsize_from :: "platform \<Rightarrow> byteorder \<Rightarrow> nat \<Rightarrow> fmt \<Rightarrow> nat" where
  "calcsize_from pf bo pos [] = pos"
| "calcsize_from pf bo pos ((n, c) # fs) =
     calcsize_from pf bo (pos + padding pf bo c pos + n * code_size pf bo c) fs"

definition calcsize :: "platform \<Rightarrow> byteorder \<Rightarrow> fmt \<Rightarrow> nat" where
  "calcsize pf bo f = calcsize_from pf bo 0 f"

text \<open>
  \<open>struct.calcsize(byteorder + 'i')\<close>: a C \<open>int\<close> has 4 bytes natively on both
  kinds of platform and 4 bytes in the standard sizes.
\<close>

definition calcsize_i :: "platform \<Rightarrow> byteorder \<Rightarrow> nat" where
  "calcsize_i pf bo = 4"

subsection \<open>Packing\<close>

text \<open>The \<open>k\<close> low bytes of \<open>v\<close>, lowest first.\<close>

fun le_bytes :: "nat \<Rightarrow> nat \<Rightarrow> byte list" where
  "le_bytes 0 v = []"
| "le_bytes (Suc k) v = word_of_nat v # le_bytes k (v div 256)"

definition pack_uint :: "bool \<Rightarrow> nat \<Rightarrow> nat \<Rightarrow> byte list" where
  "pack_uint little k v = (if little then le_bytes k v else rev (le_bytes k v))"

text \<open>One value under an unsigned code of \<open>k\<close> bytes: an integer in range, or \<open>struct.error\<close>.\<close>

fun pack_value :: "bool \<Rightarrow> nat \<Rightarrow> pyval \<Rightarrow> error + byte list" where
  "pack_value little k (PyInt i) =
     (if 0 \<le> i \<and> i < 256 ^ k then Inr (pack_uint little k (nat i)) else Inl StructError)"
| "pack_value little k v = Inl StructError"

fun pack_values :: "bool \<Rightarrow> nat \<Rightarrow> pyval list \<Rightarrow> error + byte list" where
  "pack_values little k [] = Inr []"
| "pack_values little k (v # vs) =
     (case pack_value little k v of
        Inl e \<Rightarrow> Inl e
      | Inr bs \<Rightarrow>
          (case pack_values little k vs of
             Inl e \<Rightarrow> Inl e
           | Inr rest \<Rightarrow> Inr (bs @ rest)))"

fun pack_fields :: "platform \<Rightarrow> byteorder \<Rightarrow> nat \<Rightarrow> fmt \<Rightarrow> pyval list \<Rightarrow> error + byte list" where
  "pack_fields pf bo pos [] vals = Inr []"
| "pack_fields pf bo pos ((n, c) # fs) vals =
     (let pad = padding pf bo c pos; k = code_size pf bo c in
      case pack_values (order_little pf bo) k (take n vals) of
        Inl e \<Rightarrow> Inl e
      | Inr bs \<Rightarrow>
          (case pack_fields pf bo (pos + pad + n * k) fs (drop n vals) of
             Inl e \<Rightarrow> Inl e
           | Inr rest \<Rightarrow> Inr (replicate pad 0 @ bs @ rest)))"

text \<open>
  \<open>struct.pack_into(fmt, buf, offset, *vals)\<close> on a bytearray: the number of values is
  checked, then the offset is converted to a \<open>Py_ssize_t\<close> (64 bits on both kinds of
  platform; \<open>IndexError\<close> when it does not fit) and checked (a negative one counts from
  the end of the buffer), then the room from the offset, and the packed bytes replace the
  buffer's bytes from there. The result is the buffer after the call. What a failed call
  leaves in the buffer is not modelled.
\<close>

definition pack_into :: "platform \<Rightarrow> byteorder \<Rightarrow> fmt \<Rightarrow> byte list \<Rightarrow> int \<Rightarrow> pyval list \<Rightarrow> error + byte list" where
  "pack_into pf bo f buf offset vals =
     (let sz = calcsize pf bo f; n = length buf in
      if sum_list (map fst f) \<noteq> length vals then Inl StructError
      else if offset < - (2 ^ 63) \<or> 2 ^ 63 \<le> offset then Inl IndexError
      else if offset < 0 \<and> offset + int sz > 0 then Inl StructError
      else if offset < 0 \<and> offset + int n < 0 then Inl StructError
      else
        let off = nat (if offset < 0 then offset + int n else offset) in
        if int n - int off < int sz then Inl StructError
        else
          (case pack_fields pf bo 0 f vals of
             Inl e \<Rightarrow> Inl e
           | Inr bs \<Rightarrow> Inr (take off buf @ bs @ drop (off + sz) buf)))"

subsection \<open>Unpacking\<close>

definition unpack_uint :: "bool \<Rightarrow> byte list \<Rightarrow> nat" where
  "unpack_uint little bs =
     foldr (\<lambda>b acc. unat b + 256 * acc) (if little then bs else rev bs) 0"

fun unpack_values :: "bool \<Rightarrow> nat \<Rightarrow> nat \<Rightarrow> byte list \<Rightarrow> nat list" where
  "unpack_values little k 0 bs = []"
| "unpack_values little k (Suc n) bs =
     unpack_uint little (take k bs) # unpack_values little k n (drop k bs)"

fun unpack_fields :: "platform \<Rightarrow> byteorder \<Rightarrow> nat \<Rightarrow> fmt \<Rightarrow> byte list \<Rightarrow> nat list" where
  "unpack_fields pf bo pos [] bs = []"
| "unpack_fields pf bo pos ((n, c) # fs) bs =
     (let pad = padding pf bo c pos; k = code_size pf bo c in
      unpack_values (order_little pf bo) k n (drop pad bs)
        @ unpack_fields pf bo (pos + pad + n * k) fs (drop (pad + n * k) bs))"

text \<open>\<open>struct.unpack_from(fmt, buf, offset)\<close> for an offset that is not negative.\<close>

definition unpack_from :: "platform \<Rightarrow> byteorder \<Rightarrow> fmt \<Rightarrow> byte list \<Rightarrow> nat \<Rightarrow> error + nat list" where
  "unpack_from pf bo f buf offset =
     (if int (length buf) - int offset < int (calcsize pf bo f) then Inl StructError
      else Inr (unpack_fields pf bo 0 f (drop offset buf)))"

section \<open>LeanMinHash\<close>

text \<open>
  The attributes of an instance. \<open>dtype\<close> and \<open>n_bytes\<close> are set by \<open>__init__\<close> and by
  \<open>deserialize\<close> only: an object made by \<open>object.__new__\<close> and \<open>_initialize_slots\<close>
  alone (in \<open>copy\<close> and \<open>union\<close>) has neither, which is \<open>None\<close> here.
\<close>

record LeanMinHash =
  seed :: pyval
  hashvalues :: "nat list"
  dtype :: "dtype option"
  n_bytes :: "nat option"

text \<open>
  Modelled from the spec: \<open>MinHash._parse_hashvalues\<close>, a method of the base class,
  which is not among the sources. The spec has the internal factory accept the slots as
  they are, "an ordered, fixed-length sequence of unsigned integers"; anything else is
  rejected (the message is this model's).
\<close>

fun parse_hashvalues :: "pyval \<Rightarrow> error + nat list" where
  "parse_hashvalues (PySeq xs) = Inr xs"
| "parse_hashvalues v = Inl (ValueError ''hashvalues is not a sequence of unsigned integers'')"

text \<open>
  Modelled from the spec: \<open>MinHash.__len__\<close>, of the base class: "\<open>length()\<close> \<rightarrow> \<open>width\<close>",
  the number of slots.
\<close>

definition len :: "LeanMinHash \<Rightarrow> nat" where
  "len self = length (hashvalues self)"

text \<open>
  Modelled from the spec: \<open>MinHash.__eq__\<close>, of the base class: "true iff \<open>seed\<close> equal
  and \<open>slots\<close> equal elementwise".
\<close>

definition equals :: "LeanMinHash \<Rightarrow> LeanMinHash \<Rightarrow> bool" where
  "equals a b \<longleftrightarrow> seed a = seed b \<and> hashvalues a = hashvalues b"

text \<open>
  \<open>_initialize_slots(seed, hashvalues)\<close> on an object whose \<open>dtype\<close> and \<open>n_bytes\<close>
  are \<open>dt\<close> and \<open>nb\<close>: it sets \<open>seed\<close>, then \<open>hashvalues\<close> to what the parser returns.
\<close>

definition initialize_slots :: "dtype option \<Rightarrow> nat option \<Rightarrow> pyval \<Rightarrow> pyval \<Rightarrow> error + LeanMinHash" where
  "initialize_slots dt nb sd hv =
     (case parse_hashvalues hv of
        Inl e \<Rightarrow> Inl e
      | Inr xs \<Rightarrow> Inr \<lparr>seed = sd, hashvalues = xs, dtype = dt, n_bytes = nb\<rparr>)"

text \<open>
  \<open>update(b)\<close> raises at once. The first component is the object after the call.
\<close>

definition update :: "LeanMinHash \<Rightarrow> pyval \<Rightarrow> LeanMinHash \<times> (error + unit)" where
  "update self b = (self, Inl (TypeError ''Cannot update a LeanMinHash''))"

text \<open>The class attribute \<open>__slots__ = ('seed', 'hashvalues')\<close>.\<close>

definition slots_attr :: "pyval \<times> pyval" where
  "slots_attr = (PyStr ''seed'', PyStr ''hashvalues'')"

text \<open>
  \<open>copy()\<close>: \<open>lmh._initialize_slots(*self.__slots__)\<close> passes the two entries of
  \<open>__slots__\<close>, which are the attribute names, to a new object.
\<close>

definition copy :: "LeanMinHash \<Rightarrow> error + LeanMinHash" where
  "copy self = initialize_slots None None (fst slots_attr) (snd slots_attr)"

text \<open>\<open>bytesize(byteorder)\<close>.\<close>

definition bytesize :: "platform \<Rightarrow> LeanMinHash \<Rightarrow> byteorder \<Rightarrow> error + nat" where
  "bytesize pf self bo =
     (let seed_size = calcsize pf bo [(1, UChar)];
          length_size = calcsize_i pf bo;
          n_byte_size = calcsize pf bo [(1, UChar)] in
      case dtype self of
        None \<Rightarrow> Inl (AttributeError ''dtype'')
      | Some d \<Rightarrow>
          let hashvalue_size = calcsize pf bo [(1, dtype_char pf d)] in
          Inr (seed_size + length_size + n_byte_size + len self * hashvalue_size))"

text \<open>
  \<open>serialize(buf, byteorder, offset)\<close> on a bytearray (for which the
  \<open>isinstance(buf, io.BufferedWriter)\<close> test is false). The guard calls \<open>bytesize()\<close>
  with its default order \<open>@\<close> and compares it with the whole length of the buffer.
\<close>

definition serialize :: "platform \<Rightarrow> LeanMinHash \<Rightarrow> byte list \<Rightarrow> byteorder \<Rightarrow> int \<Rightarrow> error + byte list" where
  "serialize pf self buf bo offset =
     (case bytesize pf self Native of
        Inl e \<Rightarrow> Inl e
      | Inr sz \<Rightarrow>
          if length buf < sz
          then Inl (ValueError ''The buffer does not have enough space                    for holding this MinHash.'')
          else
            (case dtype self of
               None \<Rightarrow> Inl (AttributeError ''dtype'')
             | Some d \<Rightarrow>
                 pack_into pf bo
                   [(1, UShort), (1, UChar), (1, UChar), (len self, dtype_char pf d)]
                   buf offset
                   ([PyInt (int (len self)), seed self, PyInt (int (itemsize d))]
                      @ map (\<lambda>h. PyInt (int h)) (hashvalues self))))"

text \<open>
  \<open>deserialize(buf, byteorder)\<close>: the first statement replaces the argument by the
  order of the host.
\<close>

definition deserialize :: "platform \<Rightarrow> byte list \<Rightarrow> byteorder \<Rightarrow> error + LeanMinHash" where
  "deserialize pf buf byteorder_arg =
     (let byteorder = (if little_endian pf then Little else Big);
          fmt_seed_size = [(1, UShort), (1, UChar), (1, UChar)] in
      case unpack_from pf byteorder fmt_seed_size buf 0 of
        Inl e \<Rightarrow> Inl e
      | Inr hdr \<Rightarrow>
          (case hdr of
             [num_perm, sd, nb] \<Rightarrow>
               (let offset = calcsize pf byteorder fmt_seed_size in
                case np_dtype nb of
                  Inl e \<Rightarrow> Inl e
                | Inr d \<Rightarrow>
                    (case unpack_from pf byteorder [(num_perm, dtype_char pf d)] buf offset of
                       Inl e \<Rightarrow> Inl e
                     | Inr hv \<Rightarrow> initialize_slots (Some d) (Some nb) (PyInt (int sd)) (PySeq hv)))
           | _ \<Rightarrow> Inl (ValueError ''not enough values to unpack'')))"

text \<open>
  \<open>np.minimum.reduce\<close> over a list of arrays of one length: the first array, combined
  with each later one by the elementwise minimum.
\<close>

fun minimum_reduce :: "nat list list \<Rightarrow> nat list" where
  "minimum_reduce [] = []"
| "minimum_reduce (r # rs) = foldl (\<lambda>acc row. map2 min acc row) r rs"

text \<open>\<open>union(*lmhs)\<close>. The new object gets \<open>seed\<close> and \<open>hashvalues\<close> only.\<close>

definition union_lmh :: "LeanMinHash list \<Rightarrow> error + LeanMinHash" where
  "union_lmh lmhs =
     (if length lmhs < 2 then Inl (ValueError ''Cannot union less than 2 MinHash'')
      else
        let num_perm = len (lmhs ! 0);
            sd = seed (lmhs ! 0) in
        if list_ex (\<lambda>m. sd \<noteq> seed m \<or> num_perm \<noteq> len m) lmhs
        then Inl (ValueError ''The unioning MinHash must have the                    same seed, number of permutation functions and hashobj'')
        else
          let hv = minimum_reduce (map hashvalues lmhs) in
          initialize_slots None None sd (PySeq hv))"

section \<open>Union: the elementwise minimum\<close>

lemma Min_insert_insert:
  "finite S \<Longrightarrow> Min (insert (a::'a::linorder) (insert b S)) = Min (insert (min a b) S)"
  by (cases "S = {}") (simp_all add: min.assoc)

lemma foldl_map2_min_length:
  "length acc = n \<Longrightarrow> \<forall>r\<in>set rs. length r = n \<Longrightarrow>
   length (foldl (\<lambda>acc row. map2 min acc row) acc rs) = n"
  by (induction rs arbitrary: acc) simp_all

lemma foldl_map2_min_nth:
  "length acc = n \<Longrightarrow> \<forall>r\<in>set rs. length r = n \<Longrightarrow> i < n \<Longrightarrow>
   foldl (\<lambda>acc row. map2 min acc row) acc rs ! i
     = Min (insert (acc ! i) ((\<lambda>r. r ! i) ` set rs))"
proof (induction rs arbitrary: acc)
  case Nil
  then show ?case by simp
next
  case (Cons r rs)
  let ?S = "(\<lambda>r. r ! i) ` set rs"
  have len: "length (map2 min acc r) = n" using Cons.prems by simp
  have "foldl (\<lambda>acc row. map2 min acc row) acc (r # rs) ! i
          = foldl (\<lambda>acc row. map2 min acc row) (map2 min acc r) rs ! i"
    by simp
  also have "\<dots> = Min (insert (map2 min acc r ! i) ?S)"
    using Cons.IH [OF len] Cons.prems by simp
  also have "\<dots> = Min (insert (min (acc ! i) (r ! i)) ?S)"
    using Cons.prems by simp
  also have "\<dots> = Min (insert (acc ! i) (insert (r ! i) ?S))"
    by (rule Min_insert_insert [symmetric]) simp
  also have "\<dots> = Min (insert (acc ! i) ((\<lambda>r. r ! i) ` set (r # rs)))"
    by simp
  finally show ?case .
qed

lemma minimum_reduce_length:
  "rows \<noteq> [] \<Longrightarrow> \<forall>r\<in>set rows. length r = n \<Longrightarrow> length (minimum_reduce rows) = n"
  by (cases rows) (simp_all add: foldl_map2_min_length)

lemma minimum_reduce_nth:
  "rows \<noteq> [] \<Longrightarrow> \<forall>r\<in>set rows. length r = n \<Longrightarrow> i < n \<Longrightarrow>
   minimum_reduce rows ! i = Min ((\<lambda>r. r ! i) ` set rows)"
  by (cases rows) (simp_all add: foldl_map2_min_nth)

lemma union_lmh_compatible:
  assumes "2 \<le> length lmhs" and "\<forall>m\<in>set lmhs. seed m = sd \<and> len m = w"
  shows "union_lmh lmhs =
           Inr \<lparr>seed = sd, hashvalues = minimum_reduce (map hashvalues lmhs),
                dtype = None, n_bytes = None\<rparr>"
proof -
  have ne: "lmhs \<noteq> []" using assms(1) by auto
  then have "lmhs ! 0 \<in> set lmhs" by simp
  then have h: "seed (lmhs ! 0) = sd" "len (lmhs ! 0) = w" using assms(2) by auto
  have "\<not> list_ex (\<lambda>m. sd \<noteq> seed m \<or> w \<noteq> len m) lmhs"
    using assms(2) by (auto simp: list_ex_iff)
  then show ?thesis
    using assms(1) h by (simp add: union_lmh_def initialize_slots_def Let_def)
qed

lemma union_lmh_incompatible:
  assumes "2 \<le> length lmhs"
    and "\<exists>a\<in>set lmhs. \<exists>b\<in>set lmhs. seed a \<noteq> seed b \<or> len a \<noteq> len b"
  shows "union_lmh lmhs = Inl (ValueError ''The unioning MinHash must have the                    same seed, number of permutation functions and hashobj'')"
proof -
  have ne: "lmhs \<noteq> []" using assms(1) by auto
  then have "lmhs ! 0 \<in> set lmhs" by simp
  have "list_ex (\<lambda>m. seed (lmhs ! 0) \<noteq> seed m \<or> len (lmhs ! 0) \<noteq> len m) lmhs"
    using assms(2) unfolding list_ex_iff by metis
  then show ?thesis
    using assms(1) by (simp add: union_lmh_def Let_def)
qed

section \<open>Union: what it returns and what it rejects\<close>

text \<open>
  C3. For a list of at least two sketches that all have the seed \<open>sd\<close> and the width
  \<open>w\<close>, \<open>union\<close> returns a sketch with that seed and width whose slot \<open>i\<close> is the
  minimum of the inputs' slots \<open>i\<close>, for every \<open>i < w\<close>. For the slots \<open>[5,9,2,7]\<close> and
  \<open>[3,10,1,8]\<close> under seed 42 it returns the slots \<open>[3,9,1,7]\<close>.
\<close>

theorem union_slotwise_minimum:
  "(2 \<le> length lmhs \<and> (\<forall>m\<in>set lmhs. seed m = sd \<and> len m = w) \<longrightarrow>
      (\<exists>r. union_lmh lmhs = Inr r \<and> seed r = sd \<and> len r = w \<and>
           (\<forall>i<w. hashvalues r ! i = Min ((\<lambda>m. hashvalues m ! i) ` set lmhs))))
   \<and> (\<exists>r. union_lmh
              [\<lparr>seed = PyInt 42, hashvalues = [5, 9, 2, 7], dtype = dtA, n_bytes = nbA\<rparr>,
               \<lparr>seed = PyInt 42, hashvalues = [3, 10, 1, 8], dtype = dtB, n_bytes = nbB\<rparr>]
            = Inr r \<and> hashvalues r = [3, 9, 1, 7])"
proof (intro conjI impI)
  assume a: "2 \<le> length lmhs \<and> (\<forall>m\<in>set lmhs. seed m = sd \<and> len m = w)"
  let ?rows = "map hashvalues lmhs"
  have ne: "?rows \<noteq> []" using a by auto
  have rows: "\<forall>r\<in>set ?rows. length r = w" using a by (auto simp: len_def)
  have u: "union_lmh lmhs =
             Inr \<lparr>seed = sd, hashvalues = minimum_reduce ?rows, dtype = None, n_bytes = None\<rparr>"
    using a by (intro union_lmh_compatible) auto
  have "\<forall>i<w. minimum_reduce ?rows ! i = Min ((\<lambda>m. hashvalues m ! i) ` set lmhs)"
    using minimum_reduce_nth [OF ne rows] by (simp add: image_image)
  then show "\<exists>r. union_lmh lmhs = Inr r \<and> seed r = sd \<and> len r = w \<and>
           (\<forall>i<w. hashvalues r ! i = Min ((\<lambda>m. hashvalues m ! i) ` set lmhs))"
    using u minimum_reduce_length [OF ne rows] by (simp add: len_def)
next
  show "\<exists>r. union_lmh
              [\<lparr>seed = PyInt 42, hashvalues = [5, 9, 2, 7], dtype = dtA, n_bytes = nbA\<rparr>,
               \<lparr>seed = PyInt 42, hashvalues = [3, 10, 1, 8], dtype = dtB, n_bytes = nbB\<rparr>]
            = Inr r \<and> hashvalues r = [3, 9, 1, 7]"
    by (simp add: union_lmh_def initialize_slots_def len_def Let_def)
qed

theorem union_slotwise_minimum_witness:
  "2 \<le> length [\<lparr>seed = PyInt 1, hashvalues = [4, 8], dtype = Some U1, n_bytes = Some 1\<rparr>,
                 \<lparr>seed = PyInt 1, hashvalues = [6, 2], dtype = Some U1, n_bytes = Some 1\<rparr>,
                 \<lparr>seed = PyInt 1, hashvalues = [5, 5], dtype = Some U1, n_bytes = Some 1\<rparr>]
   \<and> (\<exists>r. union_lmh
              [\<lparr>seed = PyInt 1, hashvalues = [4, 8], dtype = Some U1, n_bytes = Some 1\<rparr>,
               \<lparr>seed = PyInt 1, hashvalues = [6, 2], dtype = Some U1, n_bytes = Some 1\<rparr>,
               \<lparr>seed = PyInt 1, hashvalues = [5, 5], dtype = Some U1, n_bytes = Some 1\<rparr>] = Inr r
          \<and> seed r = PyInt 1 \<and> len r = 2 \<and> hashvalues r ! 0 = 4 \<and> hashvalues r ! 1 = 2)"
proof -
  let ?xs = "[\<lparr>seed = PyInt 1, hashvalues = [4, 8], dtype = Some U1, n_bytes = Some 1\<rparr>,
              \<lparr>seed = PyInt 1, hashvalues = [6, 2], dtype = Some U1, n_bytes = Some 1\<rparr>,
              \<lparr>seed = PyInt 1, hashvalues = [5, 5], dtype = Some U1, n_bytes = Some 1\<rparr>]"
  have h: "2 \<le> length ?xs \<and> (\<forall>m\<in>set ?xs. seed m = PyInt 1 \<and> len m = 2)"
    by (simp add: len_def)
  from union_slotwise_minimum [of ?xs "PyInt 1" 2] h
  obtain r where r: "union_lmh ?xs = Inr r" "seed r = PyInt 1" "len r = 2"
    and m: "\<forall>i<2. hashvalues r ! i = Min ((\<lambda>m. hashvalues m ! i) ` set ?xs)"
    by blast
  from m [rule_format, of 0] have "hashvalues r ! 0 = 4" by simp
  moreover from m [rule_format, of 1] have "hashvalues r ! 1 = 2" by simp
  ultimately show ?thesis using r by simp
qed

text \<open>
  C7, as the claim states it: the failure of \<open>union\<close> on fewer than two sketches is an
  error of another kind than its failure on incompatible sketches. On one sketch, and on
  two sketches with the seeds 1 and 2, the exception raised is of the same class,
  ValueError.
\<close>

theorem union_errors_same_class:
  "raised_class (union_lmh [\<lparr>seed = PyInt 1, hashvalues = [4, 8], dtype = Some U1, n_bytes = Some 1\<rparr>]) = Some ValueErrorClass
   \<and> raised_class (union_lmh [\<lparr>seed = PyInt 1, hashvalues = [4, 8], dtype = Some U1, n_bytes = Some 1\<rparr>,
                              \<lparr>seed = PyInt 2, hashvalues = [6, 2], dtype = Some U1, n_bytes = Some 1\<rparr>]) = Some ValueErrorClass
   \<and> \<not> raised_class (union_lmh [\<lparr>seed = PyInt 1, hashvalues = [4, 8], dtype = Some U1, n_bytes = Some 1\<rparr>])
       \<noteq> raised_class (union_lmh [\<lparr>seed = PyInt 1, hashvalues = [4, 8], dtype = Some U1, n_bytes = Some 1\<rparr>,
                                  \<lparr>seed = PyInt 2, hashvalues = [6, 2], dtype = Some U1, n_bytes = Some 1\<rparr>])"
  by (simp add: union_lmh_def Let_def)

text \<open>
  C7, amended. With fewer than two sketches \<open>union\<close> fails with the ValueError "Cannot
  union less than 2 MinHash"; with at least two sketches of which two differ in seed or in
  width it fails with the ValueError "The unioning MinHash must have the same seed, ...".
  The two failures are of one class, ValueError, and are different errors, told apart by
  their messages only.
\<close>

theorem union_rejects:
  "(length lmhs < 2 \<longrightarrow>
      union_lmh lmhs = Inl (ValueError ''Cannot union less than 2 MinHash''))
   \<and> (2 \<le> length lmhs \<and> (\<exists>a\<in>set lmhs. \<exists>b\<in>set lmhs. seed a \<noteq> seed b \<or> len a \<noteq> len b) \<longrightarrow>
      union_lmh lmhs = Inl (ValueError ''The unioning MinHash must have the                    same seed, number of permutation functions and hashobj''))
   \<and> (length few < 2 \<and> 2 \<le> length lmhs \<and> (\<exists>a\<in>set lmhs. \<exists>b\<in>set lmhs. seed a \<noteq> seed b \<or> len a \<noteq> len b) \<longrightarrow>
      raised_class (union_lmh few) = Some ValueErrorClass
      \<and> raised_class (union_lmh lmhs) = Some ValueErrorClass
      \<and> union_lmh few \<noteq> union_lmh lmhs)"
proof (intro conjI impI)
  assume "length lmhs < 2"
  then show "union_lmh lmhs = Inl (ValueError ''Cannot union less than 2 MinHash'')"
    by (simp add: union_lmh_def)
next
  assume "2 \<le> length lmhs \<and> (\<exists>a\<in>set lmhs. \<exists>b\<in>set lmhs. seed a \<noteq> seed b \<or> len a \<noteq> len b)"
  then show "union_lmh lmhs = Inl (ValueError ''The unioning MinHash must have the                    same seed, number of permutation functions and hashobj'')"
    by (intro union_lmh_incompatible) auto
next
  assume a: "length few < 2 \<and> 2 \<le> length lmhs \<and> (\<exists>a\<in>set lmhs. \<exists>b\<in>set lmhs. seed a \<noteq> seed b \<or> len a \<noteq> len b)"
  have f: "union_lmh few = Inl (ValueError ''Cannot union less than 2 MinHash'')"
    using a by (simp add: union_lmh_def)
  have i: "union_lmh lmhs = Inl (ValueError ''The unioning MinHash must have the                    same seed, number of permutation functions and hashobj'')"
    using a by (intro union_lmh_incompatible) auto
  show "raised_class (union_lmh few) = Some ValueErrorClass" by (simp add: f)
  show "raised_class (union_lmh lmhs) = Some ValueErrorClass" by (simp add: i)
  show "union_lmh few \<noteq> union_lmh lmhs" by (simp add: f i)
qed

theorem union_rejects_witness:
  "length [\<lparr>seed = PyInt 1, hashvalues = [4, 8], dtype = Some U1, n_bytes = Some 1\<rparr>] < 2
   \<and> union_lmh [\<lparr>seed = PyInt 1, hashvalues = [4, 8], dtype = Some U1, n_bytes = Some 1\<rparr>]
       = Inl (ValueError ''Cannot union less than 2 MinHash'')
   \<and> union_lmh [] = Inl (ValueError ''Cannot union less than 2 MinHash'')
   \<and> union_lmh [\<lparr>seed = PyInt 1, hashvalues = [4, 8], dtype = Some U1, n_bytes = Some 1\<rparr>,
                 \<lparr>seed = PyInt 2, hashvalues = [6, 2], dtype = Some U1, n_bytes = Some 1\<rparr>]
       = Inl (ValueError ''The unioning MinHash must have the                    same seed, number of permutation functions and hashobj'')
   \<and> union_lmh [\<lparr>seed = PyInt 1, hashvalues = [4, 8], dtype = Some U1, n_bytes = Some 1\<rparr>,
                 \<lparr>seed = PyInt 1, hashvalues = [6, 2, 3], dtype = Some U1, n_bytes = Some 1\<rparr>]
       = Inl (ValueError ''The unioning MinHash must have the                    same seed, number of permutation functions and hashobj'')
   \<and> raised_class (union_lmh [\<lparr>seed = PyInt 1, hashvalues = [4, 8], dtype = Some U1, n_bytes = Some 1\<rparr>])
       = raised_class (union_lmh [\<lparr>seed = PyInt 1, hashvalues = [4, 8], dtype = Some U1, n_bytes = Some 1\<rparr>,
                                  \<lparr>seed = PyInt 2, hashvalues = [6, 2], dtype = Some U1, n_bytes = Some 1\<rparr>])
   \<and> union_lmh [\<lparr>seed = PyInt 1, hashvalues = [4, 8], dtype = Some U1, n_bytes = Some 1\<rparr>]
       \<noteq> union_lmh [\<lparr>seed = PyInt 1, hashvalues = [4, 8], dtype = Some U1, n_bytes = Some 1\<rparr>,
                     \<lparr>seed = PyInt 2, hashvalues = [6, 2], dtype = Some U1, n_bytes = Some 1\<rparr>]"
proof -
  let ?a = "\<lparr>seed = PyInt 1, hashvalues = [4, 8], dtype = Some U1, n_bytes = Some 1\<rparr>"
  let ?b = "\<lparr>seed = PyInt 2, hashvalues = [6, 2], dtype = Some U1, n_bytes = Some 1\<rparr>"
  let ?c = "\<lparr>seed = PyInt 1, hashvalues = [6, 2, 3], dtype = Some U1, n_bytes = Some 1\<rparr>"
  have h1: "length [?a] < 2" by simp
  with union_rejects [of "[?a]"] have 1: "union_lmh [?a] = Inl (ValueError ''Cannot union less than 2 MinHash'')"
    by blast
  have "length ([] :: LeanMinHash list) < 2" by simp
  with union_rejects [of "[]"] have 0: "union_lmh [] = Inl (ValueError ''Cannot union less than 2 MinHash'')"
    by blast
  have h2: "2 \<le> length [?a, ?b] \<and> (\<exists>x\<in>set [?a, ?b]. \<exists>y\<in>set [?a, ?b]. seed x \<noteq> seed y \<or> len x \<noteq> len y)"
    by auto
  with union_rejects [of "[?a, ?b]"] have 2: "union_lmh [?a, ?b] = Inl (ValueError ''The unioning MinHash must have the                    same seed, number of permutation functions and hashobj'')"
    by blast
  have "2 \<le> length [?a, ?c] \<and> (\<exists>x\<in>set [?a, ?c]. \<exists>y\<in>set [?a, ?c]. seed x \<noteq> seed y \<or> len x \<noteq> len y)"
    by (auto simp: len_def)
  with union_rejects [of "[?a, ?c]"] have 3: "union_lmh [?a, ?c] = Inl (ValueError ''The unioning MinHash must have the                    same seed, number of permutation functions and hashobj'')"
    by blast
  from union_rejects [of "[?a, ?b]" "[?a]"] h1 h2
  have 4: "raised_class (union_lmh [?a]) = Some ValueErrorClass
           \<and> raised_class (union_lmh [?a, ?b]) = Some ValueErrorClass
           \<and> union_lmh [?a] \<noteq> union_lmh [?a, ?b]"
    by blast
  show ?thesis using 0 1 2 3 4 by simp
qed

lemma minimum_reduce_mset:
  assumes "mset ys = mset xs" and "xs \<noteq> []" and "\<forall>r\<in>set xs. length r = n"
  shows "minimum_reduce ys = minimum_reduce xs"
proof (rule nth_equalityI)
  have s: "set ys = set xs" using assms(1) by (rule mset_eq_setD)
  then have ne: "ys \<noteq> []" and rows: "\<forall>r\<in>set ys. length r = n"
    using assms(2,3) by auto
  show "length (minimum_reduce ys) = length (minimum_reduce xs)"
    using minimum_reduce_length [OF ne rows] minimum_reduce_length [OF assms(2,3)] by simp
  fix i assume "i < length (minimum_reduce ys)"
  then have i: "i < n" using minimum_reduce_length [OF ne rows] by simp
  show "minimum_reduce ys ! i = minimum_reduce xs ! i"
    using minimum_reduce_nth [OF ne rows i] minimum_reduce_nth [OF assms(2,3) i] s by simp
qed

text \<open>
  C9. On compatible sketches \<open>union\<close> is commutative and associative: every permutation
  of a list of at least two compatible sketches gives an equal sketch, and the union of
  \<open>union([a, b])\<close> with \<open>c\<close> equals \<open>union([a, b, c])\<close>.
\<close>

theorem union_commutative_associative:
  "(2 \<le> length xs \<and> (\<forall>m\<in>set xs. seed m = sd \<and> len m = w) \<and> mset ys = mset xs \<longrightarrow>
      (\<exists>r r'. union_lmh xs = Inr r \<and> union_lmh ys = Inr r' \<and> equals r r'))
   \<and> (seed a = sd \<and> seed b = sd \<and> seed c = sd \<and> len a = w \<and> len b = w \<and> len c = w \<longrightarrow>
      (\<exists>ab r r'. union_lmh [a, b] = Inr ab \<and> union_lmh [ab, c] = Inr r \<and>
                 union_lmh [a, b, c] = Inr r' \<and> equals r r'))"
proof (intro conjI impI)
  assume a: "2 \<le> length xs \<and> (\<forall>m\<in>set xs. seed m = sd \<and> len m = w) \<and> mset ys = mset xs"
  then have p: "mset ys = mset xs" by simp
  have ly: "2 \<le> length ys" using a mset_eq_length [OF p] by simp
  have cy: "\<forall>m\<in>set ys. seed m = sd \<and> len m = w" using a mset_eq_setD [OF p] by simp
  have rows: "\<forall>r\<in>set (map hashvalues xs). length r = w" using a by (auto simp: len_def)
  have ne: "map hashvalues xs \<noteq> []" using a by auto
  have "mset (map hashvalues ys) = mset (map hashvalues xs)" using p by (metis mset_map)
  then have "minimum_reduce (map hashvalues ys) = minimum_reduce (map hashvalues xs)"
    using ne rows by (rule minimum_reduce_mset)
  moreover have "union_lmh xs = Inr \<lparr>seed = sd, hashvalues = minimum_reduce (map hashvalues xs),
                                      dtype = None, n_bytes = None\<rparr>"
    using a by (intro union_lmh_compatible) auto
  moreover have "union_lmh ys = Inr \<lparr>seed = sd, hashvalues = minimum_reduce (map hashvalues ys),
                                      dtype = None, n_bytes = None\<rparr>"
    using ly cy by (rule union_lmh_compatible)
  ultimately show "\<exists>r r'. union_lmh xs = Inr r \<and> union_lmh ys = Inr r' \<and> equals r r'"
    by (simp add: equals_def)
next
  assume "seed a = sd \<and> seed b = sd \<and> seed c = sd \<and> len a = w \<and> len b = w \<and> len c = w"
  then show "\<exists>ab r r'. union_lmh [a, b] = Inr ab \<and> union_lmh [ab, c] = Inr r \<and>
                 union_lmh [a, b, c] = Inr r' \<and> equals r r'"
    by (simp add: union_lmh_def initialize_slots_def len_def Let_def equals_def)
qed

theorem union_commutative_associative_witness:
  "(\<exists>r r'. union_lmh
              [\<lparr>seed = PyInt 1, hashvalues = [4, 8], dtype = Some U1, n_bytes = Some 1\<rparr>,
               \<lparr>seed = PyInt 1, hashvalues = [6, 2], dtype = Some U1, n_bytes = Some 1\<rparr>,
               \<lparr>seed = PyInt 1, hashvalues = [5, 5], dtype = Some U1, n_bytes = Some 1\<rparr>] = Inr r
         \<and> union_lmh
              [\<lparr>seed = PyInt 1, hashvalues = [5, 5], dtype = Some U1, n_bytes = Some 1\<rparr>,
               \<lparr>seed = PyInt 1, hashvalues = [4, 8], dtype = Some U1, n_bytes = Some 1\<rparr>,
               \<lparr>seed = PyInt 1, hashvalues = [6, 2], dtype = Some U1, n_bytes = Some 1\<rparr>] = Inr r'
         \<and> equals r r')
   \<and> (\<exists>ab r r'. union_lmh
              [\<lparr>seed = PyInt 1, hashvalues = [4, 8], dtype = Some U1, n_bytes = Some 1\<rparr>,
               \<lparr>seed = PyInt 1, hashvalues = [6, 2], dtype = Some U1, n_bytes = Some 1\<rparr>] = Inr ab
         \<and> union_lmh
              [ab, \<lparr>seed = PyInt 1, hashvalues = [5, 5], dtype = Some U1, n_bytes = Some 1\<rparr>] = Inr r
         \<and> union_lmh
              [\<lparr>seed = PyInt 1, hashvalues = [4, 8], dtype = Some U1, n_bytes = Some 1\<rparr>,
               \<lparr>seed = PyInt 1, hashvalues = [6, 2], dtype = Some U1, n_bytes = Some 1\<rparr>,
               \<lparr>seed = PyInt 1, hashvalues = [5, 5], dtype = Some U1, n_bytes = Some 1\<rparr>] = Inr r'
         \<and> equals r r')"
proof -
  let ?a = "\<lparr>seed = PyInt 1, hashvalues = [4, 8], dtype = Some U1, n_bytes = Some 1\<rparr>"
  let ?b = "\<lparr>seed = PyInt 1, hashvalues = [6, 2], dtype = Some U1, n_bytes = Some 1\<rparr>"
  let ?c = "\<lparr>seed = PyInt 1, hashvalues = [5, 5], dtype = Some U1, n_bytes = Some 1\<rparr>"
  have h1: "2 \<le> length [?a, ?b, ?c] \<and> (\<forall>m\<in>set [?a, ?b, ?c]. seed m = PyInt 1 \<and> len m = 2)
            \<and> mset [?c, ?a, ?b] = mset [?a, ?b, ?c]"
    by (simp add: len_def)
  have h2: "seed ?a = PyInt 1 \<and> seed ?b = PyInt 1 \<and> seed ?c = PyInt 1
            \<and> len ?a = 2 \<and> len ?b = 2 \<and> len ?c = 2"
    by (simp add: len_def)
  note t = union_commutative_associative [of "[?a, ?b, ?c]" "PyInt 1" 2 "[?c, ?a, ?b]" ?a ?b ?c]
  from t h1 have "\<exists>r r'. union_lmh [?a, ?b, ?c] = Inr r \<and> union_lmh [?c, ?a, ?b] = Inr r' \<and> equals r r'"
    by blast
  moreover from t h2 have "\<exists>ab r r'. union_lmh [?a, ?b] = Inr ab \<and> union_lmh [ab, ?c] = Inr r \<and>
                 union_lmh [?a, ?b, ?c] = Inr r' \<and> equals r r'"
    by blast
  ultimately show ?thesis by blast
qed

section \<open>The frozen sketch\<close>

text \<open>
  C10. For every sketch and every argument, \<open>update\<close> raises the TypeError "Cannot update
  a LeanMinHash", and \<open>seed\<close>, \<open>hashvalues\<close>, \<open>dtype\<close> and \<open>n_bytes\<close> of the sketch are
  what they were before the call.
\<close>

theorem update_raises:
  "snd (update self b) = Inl (TypeError ''Cannot update a LeanMinHash'')
   \<and> seed (fst (update self b)) = seed self
   \<and> hashvalues (fst (update self b)) = hashvalues self
   \<and> dtype (fst (update self b)) = dtype self
   \<and> n_bytes (fst (update self b)) = n_bytes self"
  by (simp add: update_def)

text \<open>
  C6. \<open>copy\<close> is to return a new sketch equal to the original. On the sketch with seed 1
  and the slots \<open>[10,20,30,40]\<close> it raises instead: the new object is initialised from the
  names in \<open>__slots__\<close>, its seed is set to the string \<open>'seed'\<close>, and the string
  \<open>'hashvalues'\<close> is handed to the parser of hash values.
\<close>

theorem copy_raises:
  "copy \<lparr>seed = PyInt 1, hashvalues = [10, 20, 30, 40], dtype = Some U4, n_bytes = Some 4\<rparr>
     = Inl (ValueError ''hashvalues is not a sequence of unsigned integers'')"
  by (simp add: copy_def slots_attr_def initialize_slots_def)

section \<open>The codec on concrete sketches\<close>

lemma le_bytes_1: "le_bytes 1 v = [word_of_nat v]"
  by simp

lemma le_bytes_2: "le_bytes 2 v = [word_of_nat v, word_of_nat (v div 256)]"
  by (simp add: numeral_2_eq_2)

lemmas struct_simps = le_bytes_1 le_bytes_2
  calcsize_def calcsize_i_def code_size_def padding_def pack_into_def pack_uint_def
  unpack_from_def unpack_uint_def np_dtype_def initialize_slots_def len_def
  Let_def

lemma length_unpack_values: "length (unpack_values little k n bs) = n"
  by (induction n arbitrary: bs) simp_all

lemma length_unpack_single: "length (unpack_fields pf bo pos [(n, c)] bs) = n"
  by (simp add: Let_def length_unpack_values)

text \<open>
  C4. \<open>bytesize\<close> is to return \<open>2 + 1 + 1 + width * precision\<close>. For the sketch of width 1
  and precision 1 that is 5; the code returns 7 on every platform and for every byte
  order, since it counts 4 bytes for the number of hash values, which \<open>serialize\<close>
  writes in 2.
\<close>

theorem bytesize_counts_six_header_bytes:
  "bytesize pf \<lparr>seed = PyInt 7, hashvalues = [42], dtype = Some U1, n_bytes = Some 1\<rparr> bo = Inr 7
   \<and> 2 + 1 + 1
       + len \<lparr>seed = PyInt 7, hashvalues = [42], dtype = Some U1, n_bytes = Some 1\<rparr> * itemsize U1
     = 5"
  by (simp add: bytesize_def struct_simps)

text \<open>
  C5. \<open>bytesize\<close> is to equal the number of bytes \<open>serialize\<close> writes. For the sketch of
  width 1 and precision 1 in little-endian order \<open>bytesize\<close> is 7, and \<open>serialize\<close> into a
  buffer of seven bytes \<open>0xFF\<close> writes the first five and leaves the last two: its
  format \<open>HBB1B\<close> has 5 bytes.
\<close>

theorem bytesize_exceeds_bytes_written:
  "bytesize pf \<lparr>seed = PyInt 7, hashvalues = [42], dtype = Some U1, n_bytes = Some 1\<rparr> Little = Inr 7
   \<and> serialize pf \<lparr>seed = PyInt 7, hashvalues = [42], dtype = Some U1, n_bytes = Some 1\<rparr>
        [255, 255, 255, 255, 255, 255, 255] Little 0 = Inr [1, 0, 7, 1, 42, 255, 255]
   \<and> calcsize pf Little [(1, UShort), (1, UChar), (1, UChar), (1, UChar)] = 5"
  by (simp add: bytesize_def serialize_def struct_simps)

text \<open>
  C8. \<open>serialize\<close> is to fail with its buffer-too-small error whenever the length of the
  buffer minus the offset is less than \<open>bytesize\<close>. For the sketch of width 1 and
  precision 1, \<open>bytesize()\<close> is 7 and the buffer has 7 bytes: at offset 3 the guard lets
  the call through and \<open>struct.pack_into\<close> raises \<open>struct.error\<close>; at offset 1 the call
  succeeds and writes the bytes 1 to 5.
\<close>

theorem serialize_guard_ignores_offset:
  "bytesize pf \<lparr>seed = PyInt 7, hashvalues = [42], dtype = Some U1, n_bytes = Some 1\<rparr> Native = Inr 7
   \<and> serialize pf \<lparr>seed = PyInt 7, hashvalues = [42], dtype = Some U1, n_bytes = Some 1\<rparr>
        [255, 255, 255, 255, 255, 255, 255] Little 3 = Inl StructError
   \<and> serialize pf \<lparr>seed = PyInt 7, hashvalues = [42], dtype = Some U1, n_bytes = Some 1\<rparr>
        [255, 255, 255, 255, 255, 255, 255] Little 1 = Inr [255, 1, 0, 7, 1, 42, 255]"
  by (simp add: bytesize_def serialize_def struct_simps)

text \<open>
  C2. \<open>deserialize\<close> is to decode in the byte order it is given. Its result is the same
  for every \<open>byteorder\<close> argument, and for the big-endian bytes \<open>00 01 07 01 2A\<close> with the
  argument \<open>>\<close> it is \<open>struct.error\<close> on a little-endian host (the width is read as 256)
  and the sketch of seed 7 with the slot 42 on a big-endian host.
\<close>

theorem deserialize_ignores_byteorder:
  "deserialize pf buf bo = deserialize pf buf bo'
   \<and> deserialize \<lparr>little_endian = True, lp64 = l\<rparr> [0, 1, 7, 1, 42] Big = Inl StructError
   \<and> deserialize \<lparr>little_endian = False, lp64 = l\<rparr> [0, 1, 7, 1, 42] Big
       = Inr \<lparr>seed = PyInt 7, hashvalues = [42], dtype = Some U1, n_bytes = Some 1\<rparr>"
  by (simp add: deserialize_def struct_simps)

text \<open>
  On a little-endian host, once the sketch of seed 1 with the slots \<open>[10,20,30,40]\<close> of
  precision 2 has been serialized in big-endian order, whatever the size of the buffer, a
  sketch that \<open>deserialize\<close> returns from it has 1024 slots.
\<close>

lemma foreign_order_any_buffer:
  assumes "serialize \<lparr>little_endian = True, lp64 = l\<rparr>
      \<lparr>seed = PyInt 1, hashvalues = [10, 20, 30, 40], dtype = Some U2, n_bytes = Some 2\<rparr>
      buf Big 0 = Inr bs"
    and "deserialize \<lparr>little_endian = True, lp64 = l\<rparr> bs Big = Inr r"
  shows "length (hashvalues r) = 1024"
proof -
  have bs: "bs = [0, 4, 1, 2, 0, 10, 0, 20, 0, 30, 0, 40] @ drop 12 buf" and len: "14 \<le> length buf"
    using assms(1)
    by (simp_all add: bytesize_def serialize_def struct_simps split: if_splits)
  have len4: "\<not> length bs < 4" using bs len by simp
  have "unpack_from \<lparr>little_endian = True, lp64 = l\<rparr> Little [(1, UShort), (1, UChar), (1, UChar)] bs 0
          = Inr [1024, 1, 2]"
    using len4 by (simp add: struct_simps bs)
  then show ?thesis
    using assms(2)
    by (auto simp add: deserialize_def calcsize_def np_dtype_def initialize_slots_def Let_def unpack_from_def
          length_unpack_single simp del: unpack_fields.simps split: if_splits sum.splits)
qed

text \<open>
  C1. Serializing and then deserializing in one byte order is to give back an equal
  sketch, for little-endian and for big-endian order. For the sketch of seed 1 with the
  slots \<open>[10,20,30,40]\<close> of precision 2 and a buffer of \<open>bytesize()\<close> = 14 bytes: on a
  little-endian host in big-endian order, and on a big-endian host in little-endian
  order, \<open>serialize\<close> succeeds and \<open>deserialize\<close> of its bytes, given the same order,
  raises \<open>struct.error\<close>.
\<close>

theorem roundtrip_fails_in_foreign_order:
  "serialize \<lparr>little_endian = True, lp64 = l\<rparr>
      \<lparr>seed = PyInt 1, hashvalues = [10, 20, 30, 40], dtype = Some U2, n_bytes = Some 2\<rparr>
      [0, 0, 0, 0, 0, 0, 0, 0, 0, 0, 0, 0, 0, 0] Big 0 = Inr [0, 4, 1, 2, 0, 10, 0, 20, 0, 30, 0, 40, 0, 0]
   \<and> deserialize \<lparr>little_endian = True, lp64 = l\<rparr>
        [0, 4, 1, 2, 0, 10, 0, 20, 0, 30, 0, 40, 0, 0] Big = Inl StructError
   \<and> serialize \<lparr>little_endian = False, lp64 = l\<rparr>
      \<lparr>seed = PyInt 1, hashvalues = [10, 20, 30, 40], dtype = Some U2, n_bytes = Some 2\<rparr>
      [0, 0, 0, 0, 0, 0, 0, 0, 0, 0, 0, 0, 0, 0] Little 0 = Inr [4, 0, 1, 2, 10, 0, 20, 0, 30, 0, 40, 0, 0, 0]
   \<and> deserialize \<lparr>little_endian = False, lp64 = l\<rparr>
        [4, 0, 1, 2, 10, 0, 20, 0, 30, 0, 40, 0, 0, 0] Little = Inl StructError"
  by (simp add: bytesize_def serialize_def deserialize_def struct_simps)

end
